theory Spec2Isabelle
  imports Main "HOL-Library.Product_Lexorder" "HOL-Library.Multiset"
begin

chapter \<open>The programs\<close>

section \<open>Tiller start-up: the namespace of the service (cmd/tiller/tiller.go)\<close>

text \<open>
  Go strings that pass through \<^verbatim>\<open>strings.TrimSpace\<close> are modelled as the sequence of
  Unicode code points that function decodes; names of environment variables and of files
  are plain strings.
\<close>

type_synonym rune = nat
type_synonym gotext = "rune list"

text \<open>\<^verbatim>\<open>unicode.IsSpace\<close>: the code points with the White_Space property.\<close>

definition unicode_IsSpace :: "rune \<Rightarrow> bool" where
  "unicode_IsSpace r \<longleftrightarrow>
     (9 \<le> r \<and> r \<le> 13) \<or> r = 32 \<or> r = 133 \<or> r = 160 \<or> r = 5760 \<or>
     (8192 \<le> r \<and> r \<le> 8202) \<or> r = 8232 \<or> r = 8233 \<or> r = 8239 \<or>
     r = 8287 \<or> r = 12288"

text \<open>\<^verbatim>\<open>strings.TrimSpace\<close>: all leading and trailing white space removed.\<close>

definition TrimSpace :: "gotext \<Rightarrow> gotext" where
  "TrimSpace s = rev (dropWhile unicode_IsSpace (rev (dropWhile unicode_IsSpace s)))"

text \<open>
  What \<^verbatim>\<open>namespace()\<close> reads of the process's surroundings: \<^verbatim>\<open>os.Getenv\<close> (the empty
  string for a variable that is not set) and \<^verbatim>\<open>ioutil.ReadFile\<close> (the content, or the
  error).
\<close>

record os_world =
  Getenv :: "string \<Rightarrow> gotext"
  ReadFile :: "string \<Rightarrow> string + gotext"

definition serviceAccountNamespaceFile :: string where
  "serviceAccountNamespaceFile = ''/var/run/secrets/kubernetes.io/serviceaccount/namespace''"

text \<open>
  \<^verbatim>\<open>namespace()\<close>. The constant \<^verbatim>\<open>environment.DefaultTillerNamespace\<close> belongs to a package
  that is not among the sources, so it is the parameter \<open>DefaultTillerNamespace\<close>.
\<close>

definition namespace :: "gotext \<Rightarrow> os_world \<Rightarrow> gotext" where
  "namespace DefaultTillerNamespace w =
     (let ns = Getenv w ''TILLER_NAMESPACE'' in
      if ns \<noteq> [] then ns
      else
        (case ReadFile w serviceAccountNamespaceFile of
           Inr data \<Rightarrow>
             (let ns' = TrimSpace data in
              if length ns' > 0 then ns' else DefaultTillerNamespace)
         | Inl err \<Rightarrow> DefaultTillerNamespace))"

section \<open>The HTTP gateway's request functions (package services, generated gateway code)\<close>

text \<open>
  Each \<^verbatim>\<open>request_ReleaseService_*_0\<close> function builds the request message from the HTTP
  request and the path parameters the router parsed, and then calls one method of the
  \<^verbatim>\<open>ReleaseServiceClient\<close>. An error is either one made by \<^verbatim>\<open>grpc.Errorf\<close> with a status
  code and a message, or one a collaborator returned.
\<close>

datatype codes = OK | InvalidArgument | NotFound | Internal | Unknown

datatype gw_error = GrpcError codes string | CollaboratorError string

datatype rpc =
    SummarizeReleases | GetReleaseStatus | GetReleaseContent | UpdateRelease
  | InstallRelease | UninstallRelease | GetVersion | RollbackRelease | GetHistory

text \<open>
  The fields the functions assign by name; a request type's other fields are the record's
  extension.
\<close>

record protoReq =
  Name :: string
  Version :: int

text \<open>\<^verbatim>\<open>utilities.DoubleArray\<close>, the filter of the fields that query parameters may not set.\<close>

record DoubleArray =
  Encoding :: "(string \<times> int) list"
  Base :: "int list"
  Check :: "int list"

definition filter_ReleaseService_SummarizeReleases_0 :: DoubleArray where
  "filter_ReleaseService_SummarizeReleases_0 = \<lparr>Encoding = [], Base = [], Check = []\<rparr>"

definition filter_ReleaseService_UninstallRelease_0 :: DoubleArray where
  "filter_ReleaseService_UninstallRelease_0 =
     \<lparr>Encoding = [(''name'', 0)], Base = [1, 1, 0], Check = [0, 1, 2]\<rparr>"

definition filter_ReleaseService_RollbackRelease_0 :: DoubleArray where
  "filter_ReleaseService_RollbackRelease_0 =
     \<lparr>Encoding = [(''name'', 0), (''version'', 1)], Base = [1, 1, 2, 0, 0],
      Check = [0, 1, 1, 2, 3]\<rparr>"

definition filter_ReleaseService_GetHistory_0 :: DoubleArray where
  "filter_ReleaseService_GetHistory_0 =
     \<lparr>Encoding = [(''name'', 0)], Base = [1, 1, 0], Check = [0, 1, 2]\<rparr>"

text \<open>\<^verbatim>\<open>runtime.ServerMetadata\<close>: the header and trailer metadata of the call.\<close>

record ServerMetadata =
  HeaderMD :: "(string \<times> string list) list"
  TrailerMD :: "(string \<times> string list) list"

definition zeroMetadata :: ServerMetadata where
  "zeroMetadata = \<lparr>HeaderMD = [], TrailerMD = []\<rparr>"

text \<open>
  The collaborators of a request function, none of them code of this repository: the
  decoder of the request body (\<^verbatim>\<open>marshaler.NewDecoder(req.Body).Decode\<close>) and
  \<^verbatim>\<open>runtime.PopulateQueryParameters\<close> on the request's query, each giving the message as
  filled or the text of its error; the converters \<^verbatim>\<open>runtime.String\<close> and
  \<^verbatim>\<open>runtime.Int32\<close>; and the RPC client, which returns the response, the metadata and
  the error of the call.
\<close>

record ('m, 'r) gateway =
  Decode :: "'m \<Rightarrow> string + 'm"
  PopulateQueryParameters :: "'m \<Rightarrow> DoubleArray \<Rightarrow> string + 'm"
  runtime_String :: "string \<Rightarrow> gw_error + string"
  runtime_Int32 :: "string \<Rightarrow> gw_error + int"
  client :: "rpc \<Rightarrow> 'm \<Rightarrow> 'r option \<times> ServerMetadata \<times> gw_error option"

text \<open>
  What a request function returns (message, metadata, error), and the calls it made to
  the RPC client, in order.
\<close>

record ('m, 'r) outcome =
  msg :: "'r option"
  metadata :: ServerMetadata
  err :: "gw_error option"
  calls :: "(rpc \<times> 'm) list"

text \<open>\<^verbatim>\<open>return nil, metadata, e\<close> before the client was called.\<close>

definition return_error :: "gw_error \<Rightarrow> ('m, 'r) outcome" where
  "return_error e = \<lparr>msg = None, metadata = zeroMetadata, err = Some e, calls = []\<rparr>"

text \<open>\<^verbatim>\<open>msg, err := client.M(ctx, &protoReq, ...); return msg, metadata, err\<close>.\<close>

definition call_client :: "('m, 'r) gateway \<Rightarrow> rpc \<Rightarrow> 'm \<Rightarrow> ('m, 'r) outcome" where
  "call_client g m req =
     (case client g m req of
        (r, md, e) \<Rightarrow> \<lparr>msg = r, metadata = md, err = e, calls = [(m, req)]\<rparr>)"

text \<open>The path parameter \<open>name\<close>, then \<^verbatim>\<open>runtime.String\<close>, then the rest \<open>k\<close>.\<close>

definition with_name ::
  "('m, 'r) gateway \<Rightarrow> (string \<rightharpoonup> string) \<Rightarrow> (string \<Rightarrow> ('m, 'r) outcome) \<Rightarrow> ('m, 'r) outcome"
where
  "with_name g pathParams k =
     (case pathParams ''name'' of
        None \<Rightarrow> return_error (GrpcError InvalidArgument ''missing parameter name'')
      | Some val \<Rightarrow>
          (case runtime_String g val of
             Inl e \<Rightarrow> return_error e
           | Inr n \<Rightarrow> k n))"

text \<open>The path parameter \<open>version\<close>, then \<^verbatim>\<open>runtime.Int32\<close>, then the rest \<open>k\<close>.\<close>

definition with_version ::
  "('m, 'r) gateway \<Rightarrow> (string \<rightharpoonup> string) \<Rightarrow> (int \<Rightarrow> ('m, 'r) outcome) \<Rightarrow> ('m, 'r) outcome"
where
  "with_version g pathParams k =
     (case pathParams ''version'' of
        None \<Rightarrow> return_error (GrpcError InvalidArgument ''missing parameter version'')
      | Some val \<Rightarrow>
          (case runtime_Int32 g val of
             Inl e \<Rightarrow> return_error e
           | Inr v \<Rightarrow> k v))"

text \<open>
  The request functions. \<open>protoReq\<close> is the zero value of the request type
  (\<^verbatim>\<open>var protoReq T\<close>).
\<close>

definition request_ReleaseService_SummarizeReleases_0 ::
  "('a protoReq_scheme, 'r) gateway \<Rightarrow> (string \<rightharpoonup> string) \<Rightarrow> 'a protoReq_scheme
     \<Rightarrow> ('a protoReq_scheme, 'r) outcome"
where
  "request_ReleaseService_SummarizeReleases_0 g pathParams protoReq =
     (case PopulateQueryParameters g protoReq filter_ReleaseService_SummarizeReleases_0 of
        Inl e \<Rightarrow> return_error (GrpcError InvalidArgument e)
      | Inr req \<Rightarrow> call_client g SummarizeReleases req)"

definition request_ReleaseService_GetReleaseStatus_0 ::
  "('a protoReq_scheme, 'r) gateway \<Rightarrow> (string \<rightharpoonup> string) \<Rightarrow> 'a protoReq_scheme
     \<Rightarrow> ('a protoReq_scheme, 'r) outcome"
where
  "request_ReleaseService_GetReleaseStatus_0 g pathParams protoReq =
     with_name g pathParams (\<lambda>n.
       with_version g pathParams (\<lambda>v.
         call_client g GetReleaseStatus (protoReq\<lparr>Name := n, Version := v\<rparr>)))"

definition request_ReleaseService_GetReleaseContent_0 ::
  "('a protoReq_scheme, 'r) gateway \<Rightarrow> (string \<rightharpoonup> string) \<Rightarrow> 'a protoReq_scheme
     \<Rightarrow> ('a protoReq_scheme, 'r) outcome"
where
  "request_ReleaseService_GetReleaseContent_0 g pathParams protoReq =
     with_name g pathParams (\<lambda>n.
       with_version g pathParams (\<lambda>v.
         call_client g GetReleaseContent (protoReq\<lparr>Name := n, Version := v\<rparr>)))"

definition request_ReleaseService_UpdateRelease_0 ::
  "('a protoReq_scheme, 'r) gateway \<Rightarrow> (string \<rightharpoonup> string) \<Rightarrow> 'a protoReq_scheme
     \<Rightarrow> ('a protoReq_scheme, 'r) outcome"
where
  "request_ReleaseService_UpdateRelease_0 g pathParams protoReq =
     (case Decode g protoReq of
        Inl e \<Rightarrow> return_error (GrpcError InvalidArgument e)
      | Inr req \<Rightarrow>
          with_name g pathParams (\<lambda>n. call_client g UpdateRelease (req\<lparr>Name := n\<rparr>)))"

definition request_ReleaseService_InstallRelease_0 ::
  "('a protoReq_scheme, 'r) gateway \<Rightarrow> (string \<rightharpoonup> string) \<Rightarrow> 'a protoReq_scheme
     \<Rightarrow> ('a protoReq_scheme, 'r) outcome"
where
  "request_ReleaseService_InstallRelease_0 g pathParams protoReq =
     (case Decode g protoReq of
        Inl e \<Rightarrow> return_error (GrpcError InvalidArgument e)
      | Inr req \<Rightarrow>
          with_name g pathParams (\<lambda>n. call_client g InstallRelease (req\<lparr>Name := n\<rparr>)))"

definition request_ReleaseService_UninstallRelease_0 ::
  "('a protoReq_scheme, 'r) gateway \<Rightarrow> (string \<rightharpoonup> string) \<Rightarrow> 'a protoReq_scheme
     \<Rightarrow> ('a protoReq_scheme, 'r) outcome"
where
  "request_ReleaseService_UninstallRelease_0 g pathParams protoReq =
     with_name g pathParams (\<lambda>n.
       (case PopulateQueryParameters g (protoReq\<lparr>Name := n\<rparr>)
               filter_ReleaseService_UninstallRelease_0 of
          Inl e \<Rightarrow> return_error (GrpcError InvalidArgument e)
        | Inr req \<Rightarrow> call_client g UninstallRelease req))"

definition request_ReleaseService_GetVersion_0 ::
  "('a protoReq_scheme, 'r) gateway \<Rightarrow> (string \<rightharpoonup> string) \<Rightarrow> 'a protoReq_scheme
     \<Rightarrow> ('a protoReq_scheme, 'r) outcome"
where
  "request_ReleaseService_GetVersion_0 g pathParams protoReq =
     call_client g GetVersion protoReq"

definition request_ReleaseService_RollbackRelease_0 ::
  "('a protoReq_scheme, 'r) gateway \<Rightarrow> (string \<rightharpoonup> string) \<Rightarrow> 'a protoReq_scheme
     \<Rightarrow> ('a protoReq_scheme, 'r) outcome"
where
  "request_ReleaseService_RollbackRelease_0 g pathParams protoReq =
     with_name g pathParams (\<lambda>n.
       with_version g pathParams (\<lambda>v.
         (case PopulateQueryParameters g (protoReq\<lparr>Name := n, Version := v\<rparr>)
                 filter_ReleaseService_RollbackRelease_0 of
            Inl e \<Rightarrow> return_error (GrpcError InvalidArgument e)
          | Inr req \<Rightarrow> call_client g RollbackRelease req)))"

definition request_ReleaseService_GetHistory_0 ::
  "('a protoReq_scheme, 'r) gateway \<Rightarrow> (string \<rightharpoonup> string) \<Rightarrow> 'a protoReq_scheme
     \<Rightarrow> ('a protoReq_scheme, 'r) outcome"
where
  "request_ReleaseService_GetHistory_0 g pathParams protoReq =
     with_name g pathParams (\<lambda>n.
       (case PopulateQueryParameters g (protoReq\<lparr>Name := n\<rparr>)
               filter_ReleaseService_GetHistory_0 of
          Inl e \<Rightarrow> return_error (GrpcError InvalidArgument e)
        | Inr req \<Rightarrow> call_client g GetHistory req))"

text \<open>
  A request was refused as an invalid argument before any RPC: no message, an error of
  code \<open>InvalidArgument\<close>, and no call to the client.
\<close>

definition refused_invalid :: "('m, 'r) outcome \<Rightarrow> bool" where
  "refused_invalid out \<longleftrightarrow>
     msg out = None \<and> calls out = [] \<and>
     (case err out of Some (GrpcError c m) \<Rightarrow> c = InvalidArgument | _ \<Rightarrow> False)"

section \<open>Tiller start-up: the choice of the release store (cmd/tiller/tiller.go)\<close>

definition storageMemory :: string where
  "storageMemory = ''memory''"

definition storageConfigMap :: string where
  "storageConfigMap = ''configmap''"

definition storageInlineTPR :: string where
  "storageInlineTPR = ''inline-tpr''"

definition storageObjectStoreTPR :: string where
  "storageObjectStoreTPR = ''object-store-tpr''"

text \<open>
  The driver behind \<^verbatim>\<open>env.Releases\<close>. \<open>EnvironmentDefault\<close> is the store that
  \<^verbatim>\<open>environment.New()\<close> put there before \<^verbatim>\<open>start\<close> ran (that package is not among the
  sources); \<open>Init d\<close> is \<^verbatim>\<open>storage.Init(d)\<close>. The drivers carry the namespace of their
  client; the object store driver also its container and key prefix.
\<close>

datatype 'c driver =
    NewMemory
  | NewConfigMaps string
  | NewReleases string
  | NewObjectStoreReleases string 'c string

datatype 'c storage = EnvironmentDefault | Init "'c driver"

text \<open>The keys of \<^verbatim>\<open>stow.ConfigMap\<close> that \<^verbatim>\<open>start\<close> sets, by the names of their constants.\<close>

datatype cfg_key =
    s3_ConfigAccessKeyID | s3_ConfigEndpoint | s3_ConfigRegion | s3_ConfigSecretKey
  | gcs_ConfigJSON | gcs_ConfigProjectId
  | azure_ConfigAccount | azure_ConfigKey
  | swift_ConfigKey | swift_ConfigTenantAuthURL | swift_ConfigTenantName | swift_ConfigUsername

text \<open>The package-level variables that the command line flags fill.\<close>

record flags =
  store :: string
  storageProvider :: string
  s3ConfigAccessKeyID :: string
  s3ConfigEndpoint :: string
  s3ConfigRegion :: string
  s3ConfigSecretKey :: string
  gcsConfigJSONKeyPath :: string
  gcsConfigProjectId :: string
  azureConfigAccount :: string
  azureConfigKey :: string
  swiftConfigKey :: string
  swiftConfigTenantAuthURL :: string
  swiftConfigTenantName :: string
  swiftConfigUsername :: string
  container :: string
  storagePrefix :: string

text \<open>
  The provider names \<^verbatim>\<open>s3.Kind\<close>, \<^verbatim>\<open>gcs.Kind\<close>, \<^verbatim>\<open>azure.Kind\<close> and \<^verbatim>\<open>swift.Kind\<close> are
  constants of the object store library, so they are parameters here.
\<close>

record provider_kinds =
  s3_Kind :: string
  gcs_Kind :: string
  azure_Kind :: string
  swift_Kind :: string

text \<open>
  What \<^verbatim>\<open>start\<close> meets outside the program while it chooses the store: whether the
  Kubernetes client configuration and client set can be made, whether the third party
  resource is missing and whether creating it fails, whether the extensions client can be
  made (\<^verbatim>\<open>NewExtensionsForConfigOrDie\<close> panics when not), the file system, the object store
  (\<^verbatim>\<open>stow.Dial\<close> and \<^verbatim>\<open>loc.Container\<close>), and the namespace \<^verbatim>\<open>namespace()\<close> returns.
  An error is given by its text.
\<close>

record ('l, 'c) cluster =
  ClientConfig_error :: "string option"
  ClientSet_error :: "string option"
  tpr_IsNotFound :: bool
  tpr_Create_error :: "string option"
  NewExtensionsForConfig_error :: "string option"
  ioutil_ReadFile :: "string \<Rightarrow> string + string"
  stow_Dial :: "string \<Rightarrow> (cfg_key \<rightharpoonup> string) \<Rightarrow> string + 'l"
  loc_Container :: "'l \<Rightarrow> string \<Rightarrow> string + 'c"
  tiller_namespace :: string

text \<open>
  How the first part of \<^verbatim>\<open>start\<close> ends: the process exits with a status after a message
  on standard error, it panics, or it goes on to set up TLS and the listeners with the
  given \<^verbatim>\<open>env.Releases\<close>.
\<close>

datatype 'c startup = Exit int string | Panic string | Continue "'c storage"

definition newline :: string where
  "newline = [CHR 0x0A]"

text \<open>\<^verbatim>\<open>if v != "" { stowCfg[k] = v }\<close>\<close>

definition set_nonempty ::
  "cfg_key \<Rightarrow> string \<Rightarrow> (cfg_key \<rightharpoonup> string) \<Rightarrow> (cfg_key \<rightharpoonup> string)" where
  "set_nonempty k v cfg = (if v \<noteq> [] then cfg(k \<mapsto> v) else cfg)"

text \<open>\<^verbatim>\<open>ensureResource\<close>: \<open>None\<close> when it returns, the exit when it does not.\<close>

definition ensureResource :: "('l, 'c) cluster \<Rightarrow> 'c startup option" where
  "ensureResource w =
     (if tpr_IsNotFound w then
        (case tpr_Create_error w of
           Some e \<Rightarrow> Some (Exit 1 (''Failed to create third party resource: '' @ e @ newline))
         | None \<Rightarrow> None)
      else None)"

text \<open>\<^verbatim>\<open>rcs.NewExtensionsForConfigOrDie(clientcfg)\<close>, then the rest \<open>k\<close>.\<close>

definition NewExtensionsForConfigOrDie ::
  "('l, 'c) cluster \<Rightarrow> 'c startup \<Rightarrow> 'c startup" where
  "NewExtensionsForConfigOrDie w k =
     (case NewExtensionsForConfig_error w of Some e \<Rightarrow> Panic e | None \<Rightarrow> k)"

text \<open>
  The inner \<^verbatim>\<open>switch storageProvider\<close>: the configuration of the object store, or the
  exit of a branch that ends the process.
\<close>

definition provider_config ::
  "provider_kinds \<Rightarrow> flags \<Rightarrow> ('l, 'c) cluster \<Rightarrow> 'c startup + (cfg_key \<rightharpoonup> string)" where
  "provider_config kinds f w =
     (if storageProvider f = s3_Kind kinds then
        Inr (set_nonempty s3_ConfigSecretKey (s3ConfigSecretKey f)
            (set_nonempty s3_ConfigRegion (s3ConfigRegion f)
            (set_nonempty s3_ConfigEndpoint (s3ConfigEndpoint f)
            (set_nonempty s3_ConfigAccessKeyID (s3ConfigAccessKeyID f) Map.empty))))
      else if storageProvider f = gcs_Kind kinds then
        (if gcsConfigJSONKeyPath f \<noteq> [] then
           (case ioutil_ReadFile w (gcsConfigJSONKeyPath f) of
              Inl e \<Rightarrow> Inl (Exit 1 (''Cannot read json key file: '' @ e @ newline))
            | Inr jsonKey \<Rightarrow>
                Inr (set_nonempty gcs_ConfigProjectId (gcsConfigProjectId f)
                      [gcs_ConfigJSON \<mapsto> jsonKey]))
         else Inr (set_nonempty gcs_ConfigProjectId (gcsConfigProjectId f) Map.empty))
      else if storageProvider f = azure_Kind kinds then
        Inr (set_nonempty azure_ConfigKey (azureConfigKey f)
            (set_nonempty azure_ConfigAccount (azureConfigAccount f) Map.empty))
      else if storageProvider f = swift_Kind kinds then
        Inr (set_nonempty swift_ConfigUsername (swiftConfigUsername f)
            (set_nonempty swift_ConfigTenantName (swiftConfigTenantName f)
            (set_nonempty swift_ConfigTenantAuthURL (swiftConfigTenantAuthURL f)
            (set_nonempty swift_ConfigKey (swiftConfigKey f) Map.empty))))
      else Inl (Exit 1 (''Unknown provider: '' @ storageProvider f @ newline)))"

text \<open>The case \<^verbatim>\<open>storageObjectStoreTPR\<close> of the outer switch.\<close>

definition object_store_case ::
  "provider_kinds \<Rightarrow> flags \<Rightarrow> ('l, 'c) cluster \<Rightarrow> 'c startup" where
  "object_store_case kinds f w =
     (case ensureResource w of
        Some x \<Rightarrow> x
      | None \<Rightarrow>
          (case provider_config kinds f w of
             Inl x \<Rightarrow> x
           | Inr stowCfg \<Rightarrow>
               (case stow_Dial w (storageProvider f) stowCfg of
                  Inl e \<Rightarrow> Exit 1 (''Cannot connect to object store: '' @ e @ newline)
                | Inr loc \<Rightarrow>
                    (case loc_Container w loc (container f) of
                       Inl e \<Rightarrow> Exit 1 (''Cannot find container: '' @ e @ newline)
                     | Inr c \<Rightarrow>
                         NewExtensionsForConfigOrDie w
                           (Continue (Init (NewObjectStoreReleases (tiller_namespace w) c
                              (storagePrefix f))))))))"

text \<open>
  \<^verbatim>\<open>start\<close>, from its first line to the end of \<^verbatim>\<open>switch store\<close>. The switch has four
  cases and no default.
\<close>

definition start :: "provider_kinds \<Rightarrow> flags \<Rightarrow> ('l, 'c) cluster \<Rightarrow> 'c startup" where
  "start kinds f w =
     (case ClientConfig_error w of
        Some e \<Rightarrow> Exit 1 (''Cannot initialize Kubernetes connection: '' @ e @ newline)
      | None \<Rightarrow>
     (case ClientSet_error w of
        Some e \<Rightarrow> Exit 1 (''Cannot initialize Kubernetes connection: '' @ e @ newline)
      | None \<Rightarrow>
          if store f = storageMemory then Continue (Init NewMemory)
          else if store f = storageConfigMap then
            Continue (Init (NewConfigMaps (tiller_namespace w)))
          else if store f = storageInlineTPR then
            (case ensureResource w of
               Some x \<Rightarrow> x
             | None \<Rightarrow>
                 NewExtensionsForConfigOrDie w
                   (Continue (Init (NewReleases (tiller_namespace w)))))
          else if store f = storageObjectStoreTPR then object_store_case kinds f w
          else Continue EnvironmentDefault))"

text \<open>
  Ending with a report of a configuration failure: an exit with a status other than 0.
\<close>

fun reports_failure :: "'c startup \<Rightarrow> bool" where
  "reports_failure (Exit status m) = (status \<noteq> 0)"
| "reports_failure (Panic m) = False"
| "reports_failure (Continue r) = False"

section \<open>The manifest sorter (package tiller)\<close>

text \<open>
  Of the manifest sorter only its test, \<^verbatim>\<open>hooks_test.go\<close>, is among the sources; the
  functions \<^verbatim>\<open>sortManifests\<close> and \<^verbatim>\<open>sortByKind\<close> are not. They are modelled here from the
  specification (section 4.1), and from what \<^verbatim>\<open>TestSortManifests\<close> and
  \<^verbatim>\<open>TestSortManifestsHookDeletion\<close> expect of them.
\<close>

datatype Hook_Event =
    PRE_INSTALL | POST_INSTALL | PRE_DELETE | POST_DELETE | PRE_UPGRADE | POST_UPGRADE
  | PRE_ROLLBACK | POST_ROLLBACK | RELEASE_TEST_SUCCESS | RELEASE_TEST_FAILURE | CRD_INSTALL

datatype Hook_DeletePolicy = SUCCEEDED | FAILED | BEFORE_HOOK_CREATION

text \<open>\<^verbatim>\<open>util.SimpleHead\<close>: the minimal head of a document.\<close>

record SimpleHead =
  Version_head :: string
  Kind :: string
  Name_head :: string
  Annotations :: "string \<rightharpoonup> string"

text \<open>\<^verbatim>\<open>Manifest\<close>, as the test builds it.\<close>

record Manifest =
  Name_manifest :: string
  Content :: string
  Head :: SimpleHead

text \<open>\<^verbatim>\<open>release.Hook\<close>, with the fields the test reads and the specification lists.\<close>

record Hook =
  Name_hook :: string
  Kind_hook :: string
  Path :: string
  Manifest_hook :: string
  Events :: "Hook_Event list"
  Weight :: int
  DeletePolicies :: "Hook_DeletePolicy list"
  DeleteTimeout :: int

datatype sort_error = InvalidManifest string string

text \<open>
  What the sorter takes from elsewhere: the splitting of a text at document separators
  (\<^verbatim>\<open>util.SplitManifests\<close>), the YAML parser on a document's head (\<open>None\<close> when it
  fails), the parser of decimal integers, the table of the known event names, the table
  of the known delete policies, and the constant
  \<^verbatim>\<open>defaultHookDeleteTimeoutInSeconds\<close>.
\<close>

record sorter_lib =
  SplitManifests :: "string \<Rightarrow> string list"
  Unmarshal :: "string \<Rightarrow> SimpleHead option"
  ParseInt :: "string \<Rightarrow> int option"
  events :: "string \<rightharpoonup> Hook_Event"
  deletePolices :: "string \<rightharpoonup> Hook_DeletePolicy"
  defaultHookDeleteTimeoutInSeconds :: int

text \<open>The annotation keys, as the manifests of the test write them.\<close>

definition HookAnno :: string where
  "HookAnno = ''helm.sh/hook''"

definition HookDeleteAnno :: string where
  "HookDeleteAnno = ''helm.sh/hook-delete-policy''"

definition HookDeleteTimeoutAnno :: string where
  "HookDeleteTimeoutAnno = ''helm.sh/hook-delete-timeout''"

definition HookWeightAnno :: string where
  "HookWeightAnno = ''helm.sh/hook-weight''"

text \<open>
  Modelled from the spec: the white space of a document or a token (part of the missing
  \<^verbatim>\<open>sortManifests\<close>): space, tab, line feed, vertical tab, form feed, carriage return.
\<close>

definition is_space :: "char \<Rightarrow> bool" where
  "is_space c \<longleftrightarrow> c \<in> {CHR '' '', CHR 0x09, CHR 0x0A, CHR 0x0B, CHR 0x0C, CHR 0x0D}"

text \<open>
  Modelled from the spec: trimming (part of the missing \<^verbatim>\<open>sortManifests\<close>): the white
  space at both ends removed.
\<close>

definition trim :: "string \<Rightarrow> string" where
  "trim s = rev (dropWhile is_space (rev (dropWhile is_space s)))"

text \<open>
  Modelled from the spec: the test for a document that is "empty or whitespace-only after
  trimming" (part of the missing \<^verbatim>\<open>sortManifests\<close>).
\<close>

definition whitespace_only :: "string \<Rightarrow> bool" where
  "whitespace_only d \<longleftrightarrow> trim d = []"

text \<open>
  Modelled from the spec: the base name of a source path (part of the missing
  \<^verbatim>\<open>sortManifests\<close>): what follows the last slash.
\<close>

definition path_Base :: "string \<Rightarrow> string" where
  "path_Base p = rev (takeWhile (\<lambda>c. c \<noteq> CHR ''/'') (rev p))"

text \<open>
  Modelled from the spec: a partial (part of the missing \<^verbatim>\<open>sortManifests\<close>): a path whose
  base name begins with an underscore.
\<close>

definition is_partial :: "string \<Rightarrow> bool" where
  "is_partial p = (case path_Base p of [] \<Rightarrow> False | c # cs \<Rightarrow> c = CHR ''_'')"

text \<open>
  Modelled from the spec: the splitting of an annotation value at a separator (part of the
  missing \<^verbatim>\<open>sortManifests\<close>); the tokens are trimmed afterwards, as the value
  \<^verbatim>\<open>post-delete, post-install\<close> of the test requires.
\<close>

fun split_on :: "char \<Rightarrow> string \<Rightarrow> string list" where
  "split_on c [] = [[]]"
| "split_on c (x # xs) =
     (if x = c then [] # split_on c xs
      else (case split_on c xs of [] \<Rightarrow> [[x]] | t # ts \<Rightarrow> (x # t) # ts))"

text \<open>
  Modelled from the spec: the tokens of an annotation value (part of the missing
  \<^verbatim>\<open>sortManifests\<close>): its pieces between commas, each trimmed.
\<close>

definition tokens :: "string \<Rightarrow> string list" where
  "tokens v = map trim (split_on CHR '','' v)"

text \<open>
  Modelled from the spec: the \<open>Events\<close> of a hook annotation value (part of the missing
  \<^verbatim>\<open>sortManifests\<close>): the tokens that name a known event, in order; the others are
  ignored.
\<close>

definition hook_events :: "sorter_lib \<Rightarrow> string \<Rightarrow> Hook_Event list" where
  "hook_events lib v = List.map_filter (events lib) (tokens v)"

text \<open>
  Modelled from the spec: the delete policies of a head (part of the missing
  \<^verbatim>\<open>sortManifests\<close>): the known policies among the tokens of the delete-policy
  annotation.
\<close>

definition delete_policies :: "sorter_lib \<Rightarrow> SimpleHead \<Rightarrow> Hook_DeletePolicy list" where
  "delete_policies lib h =
     (case Annotations h HookDeleteAnno of
        None \<Rightarrow> []
      | Some v \<Rightarrow> List.map_filter (deletePolices lib) (tokens v))"

text \<open>
  Modelled from the spec: the delete timeout of a hook (part of the missing
  \<^verbatim>\<open>sortManifests\<close>). A delete-timeout annotation that is not an integer is a fatal
  error; an explicit timeout resolves to exactly its value. Without the annotation, a
  hook with a delete policy resolves to the default constant, and a hook without one to
  0, as the case "No delete policy" of the test expects.
\<close>

definition delete_timeout ::
  "sorter_lib \<Rightarrow> string \<Rightarrow> SimpleHead \<Rightarrow> sort_error + int" where
  "delete_timeout lib path h =
     (case Annotations h HookDeleteTimeoutAnno of
        None \<Rightarrow>
          Inr (if delete_policies lib h = [] then 0
               else defaultHookDeleteTimeoutInSeconds lib)
      | Some v \<Rightarrow>
          (case ParseInt lib v of
             None \<Rightarrow> Inl (InvalidManifest path v)
           | Some t \<Rightarrow> Inr t))"

text \<open>
  Modelled from the spec: the weight of a hook (part of the missing \<^verbatim>\<open>sortManifests\<close>):
  the integer of the hook-weight annotation, 0 by default.
\<close>

definition hook_weight :: "sorter_lib \<Rightarrow> SimpleHead \<Rightarrow> int" where
  "hook_weight lib h =
     (case Annotations h HookWeightAnno of
        None \<Rightarrow> 0
      | Some v \<Rightarrow> (case ParseInt lib v of None \<Rightarrow> 0 | Some w \<Rightarrow> w))"

text \<open>
  Modelled from the spec: the hook record of a document (part of the missing
  \<^verbatim>\<open>sortManifests\<close>).
\<close>

definition new_hook ::
  "sorter_lib \<Rightarrow> string \<Rightarrow> string \<Rightarrow> SimpleHead \<Rightarrow> Hook_Event list \<Rightarrow> sort_error + Hook" where
  "new_hook lib path d h es =
     (case delete_timeout lib path h of
        Inl e \<Rightarrow> Inl e
      | Inr t \<Rightarrow>
          Inr \<lparr>Name_hook = Name_head h, Kind_hook = Kind h, Path = path, Manifest_hook = d,
               Events = es, Weight = hook_weight lib h,
               DeletePolicies = delete_policies lib h, DeleteTimeout = t\<rparr>)"

text \<open>
  Modelled from the spec: the classification of the documents of one path (part of the
  missing \<^verbatim>\<open>sortManifests\<close>). A document that is empty or only white space is skipped;
  so is one whose head does not parse. A document without the hook annotation is a
  generic resource. A document whose hook annotation names at least one known event is a
  hook. A document whose hook annotation names no known event goes to neither sequence:
  \<^verbatim>\<open>TestSortManifests\<close> expects 4 hooks and 2 generic manifests, and its document
  \<open>third\<close> (hook annotation \<open>no-such-hook\<close>) is among neither.
\<close>

fun sortDocuments ::
  "sorter_lib \<Rightarrow> string \<Rightarrow> string list \<Rightarrow> Hook list \<times> Manifest list
     \<Rightarrow> sort_error + Hook list \<times> Manifest list" where
  "sortDocuments lib path [] acc = Inr acc"
| "sortDocuments lib path (d # ds) (hs, gs) =
     (if whitespace_only d then sortDocuments lib path ds (hs, gs)
      else
        (case Unmarshal lib d of
           None \<Rightarrow> sortDocuments lib path ds (hs, gs)
         | Some h \<Rightarrow>
             (case Annotations h HookAnno of
                None \<Rightarrow>
                  sortDocuments lib path ds
                    (hs, gs @ [\<lparr>Name_manifest = Name_head h, Content = d, Head = h\<rparr>])
              | Some v \<Rightarrow>
                  (if hook_events lib v = [] then sortDocuments lib path ds (hs, gs)
                   else
                     (case new_hook lib path d h (hook_events lib v) of
                        Inl e \<Rightarrow> Inl e
                      | Inr hook \<Rightarrow> sortDocuments lib path ds (hs @ [hook], gs))))))"

text \<open>
  Modelled from the spec: the pass over the paths (part of the missing
  \<^verbatim>\<open>sortManifests\<close>), in the order the map of manifests is iterated. A path whose base
  name begins with an underscore is skipped.
\<close>

fun sortFiles ::
  "sorter_lib \<Rightarrow> (string \<times> string) list \<Rightarrow> Hook list \<times> Manifest list
     \<Rightarrow> sort_error + Hook list \<times> Manifest list" where
  "sortFiles lib [] acc = Inr acc"
| "sortFiles lib ((path, text) # files) acc =
     (if is_partial path then sortFiles lib files acc
      else
        (case sortDocuments lib path (SplitManifests lib text) acc of
           Inl e \<Rightarrow> Inl e
         | Inr acc' \<Rightarrow> sortFiles lib files acc'))"

text \<open>
  Modelled from the spec: the priority of a kind under a \<^verbatim>\<open>SortOrder\<close> (part of the
  missing \<^verbatim>\<open>sortByKind\<close>): its position in the table, and the table's length for a kind
  that is not in it.
\<close>

fun priority :: "string list \<Rightarrow> string \<Rightarrow> nat" where
  "priority [] k = 0"
| "priority (x # xs) k = (if x = k then 0 else Suc (priority xs k))"

text \<open>
  Modelled from the spec: \<^verbatim>\<open>sortByKind\<close>, which is not among the sources: a stable sort
  by the priority of the kind.
\<close>

definition sortByKind :: "Manifest list \<Rightarrow> string list \<Rightarrow> Manifest list" where
  "sortByKind manifests table = sort_key (\<lambda>m. priority table (Kind (Head m))) manifests"

text \<open>
  Modelled from the spec: the order of the hooks (part of the missing \<^verbatim>\<open>sortManifests\<close>):
  a stable sort by the priority of the kind, then by ascending weight.
\<close>

definition sortHooks :: "Hook list \<Rightarrow> string list \<Rightarrow> Hook list" where
  "sortHooks hs table = sort_key (\<lambda>h. (priority table (Kind_hook h), Weight h)) hs"

text \<open>
  Modelled from the spec: \<^verbatim>\<open>sortManifests\<close>, which is not among the sources. The files
  are the entries of the map of manifests in the order of iteration. The specification
  gives no rule that uses the set of API versions, so it does not appear.
\<close>

definition sortManifests ::
  "sorter_lib \<Rightarrow> (string \<times> string) list \<Rightarrow> string list
     \<Rightarrow> sort_error + Hook list \<times> Manifest list" where
  "sortManifests lib files table =
     (case sortFiles lib files ([], []) of
        Inl e \<Rightarrow> Inl e
      | Inr (hs, gs) \<Rightarrow> Inr (sortHooks hs table, sortByKind gs table))"

text \<open>
  The kinds of document the specification tells apart: blank; with a head that does not
  parse; without the hook annotation; with a hook annotation all of whose tokens are
  known events; with one none of whose tokens is a known event; with one that mixes both.
\<close>

datatype doc_class = Blank | Unparseable | Plain | KnownHook | UnknownHook | MixedHook

definition classify :: "sorter_lib \<Rightarrow> string \<Rightarrow> doc_class" where
  "classify lib d =
     (if whitespace_only d then Blank
      else
        (case Unmarshal lib d of
           None \<Rightarrow> Unparseable
         | Some h \<Rightarrow>
             (case Annotations h HookAnno of
                None \<Rightarrow> Plain
              | Some v \<Rightarrow>
                  if list_all (\<lambda>t. events lib t \<noteq> None) (tokens v) then KnownHook
                  else if list_all (\<lambda>t. events lib t = None) (tokens v) then UnknownHook
                  else MixedHook)))"

text \<open>The documents of the paths that are not skipped, in the order they are visited.\<close>

definition documents :: "sorter_lib \<Rightarrow> (string \<times> string) list \<Rightarrow> string list" where
  "documents lib files =
     concat (map (\<lambda>(path, text). SplitManifests lib text)
       (filter (\<lambda>(path, text). \<not> is_partial path) files))"

text \<open>
  A document that the sorter turns into a hook: its hook annotation names at least one
  known event.
\<close>

definition goes_to_hooks :: "sorter_lib \<Rightarrow> string \<Rightarrow> bool" where
  "goes_to_hooks lib d \<longleftrightarrow> classify lib d = KnownHook \<or> classify lib d = MixedHook"


text \<open>
  The first assertions of \<^verbatim>\<open>TestSortManifests\<close> on what \<^verbatim>\<open>sortManifests\<close> returns
  (\<^verbatim>\<open>hooks_test.go\<close>, lines 145 to 157): no error, 2 generic manifests, 4 hooks.
\<close>

definition TestSortManifests_asserts :: "sort_error + Hook list \<times> Manifest list \<Rightarrow> bool" where
  "TestSortManifests_asserts r =
     (case r of Inl e \<Rightarrow> False | Inr (hs, generic) \<Rightarrow> length generic = 2 \<and> length hs = 4)"

text \<open>
  Every one of the documents \<open>docs\<close> is in exactly one of the two output sequences:
  among the manifests of the hooks or among the generic manifests, and not in both.
\<close>

definition in_exactly_one :: "string list \<Rightarrow> Hook list \<Rightarrow> Manifest list \<Rightarrow> bool" where
  "in_exactly_one docs hs generic \<longleftrightarrow>
     list_all (\<lambda>d. (d \<in> set (map Manifest_hook hs)) \<noteq> (d \<in> set (map Content generic))) docs"

section \<open>Inputs of the examples\<close>

text \<open>
  A gateway whose collaborators all succeed, and path parameters that hold a version but
  no name.
\<close>

definition echo_gateway :: "(protoReq, string) gateway" where
  "echo_gateway =
     \<lparr>Decode = Inr, PopulateQueryParameters = (\<lambda>m f. Inr m),
      runtime_String = Inr, runtime_Int32 = (\<lambda>s. Inr 1),
      client = (\<lambda>m req. (Some (Name req), zeroMetadata, None))\<rparr>"

text \<open>The flags as \<^verbatim>\<open>main\<close> leaves them without options, and a cluster where all goes well.\<close>

definition default_flags :: flags where
  "default_flags =
     \<lparr>store = storageConfigMap, storageProvider = [],
      s3ConfigAccessKeyID = [], s3ConfigEndpoint = [], s3ConfigRegion = [],
      s3ConfigSecretKey = [], gcsConfigJSONKeyPath = [], gcsConfigProjectId = [],
      azureConfigAccount = [], azureConfigKey = [], swiftConfigKey = [],
      swiftConfigTenantAuthURL = [], swiftConfigTenantName = [], swiftConfigUsername = [],
      container = [], storagePrefix = ''tiller''\<rparr>"

definition stow_kinds :: provider_kinds where
  "stow_kinds = \<lparr>s3_Kind = ''s3'', gcs_Kind = ''google'', azure_Kind = ''azure'',
     swift_Kind = ''swift''\<rparr>"

definition healthy_cluster :: "(string, string) cluster" where
  "healthy_cluster =
     \<lparr>ClientConfig_error = None, ClientSet_error = None, tpr_IsNotFound = False,
      tpr_Create_error = None, NewExtensionsForConfig_error = None,
      ioutil_ReadFile = (\<lambda>p. Inl ''no such file''),
      stow_Dial = (\<lambda>kind cfg. Inr kind), loc_Container = (\<lambda>l c. Inr c),
      tiller_namespace = ''kube-system''\<rparr>"

subsection \<open>The manifests of the sorter's tests\<close>

text \<open>
  The manifests of \<^verbatim>\<open>TestSortManifests\<close>, by the names of their resources. The manifest
  of the path \<open>seven\<close> is the empty string; the one of the path \<open>eight\<close> holds two
  documents.
\<close>

definition first_manifest :: string where
  \<open>first_manifest = ''apiVersion: v1\<newline>kind: Job\<newline>metadata:\<newline>  name: first\<newline>  labels:\<newline>    doesnot: matter\<newline>  annotations:\<newline>    "helm.sh/hook": pre-install\<newline>''\<close>

definition second_manifest :: string where
  \<open>second_manifest = ''kind: ReplicaSet\<newline>apiVersion: v1beta1\<newline>metadata:\<newline>  name: second\<newline>  annotations:\<newline>    "helm.sh/hook": post-install\<newline>''\<close>

definition third_manifest :: string where
  \<open>third_manifest = ''kind: ReplicaSet\<newline>apiVersion: v1beta1\<newline>metadata:\<newline>  name: third\<newline>  annotations:\<newline>    "helm.sh/hook": no-such-hook\<newline>''\<close>

definition fourth_manifest :: string where
  \<open>fourth_manifest = ''kind: Pod\<newline>apiVersion: v1\<newline>metadata:\<newline>  name: fourth\<newline>  annotations:\<newline>    nothing: here''\<close>

definition fifth_manifest :: string where
  \<open>fifth_manifest = ''kind: ReplicaSet\<newline>apiVersion: v1beta1\<newline>metadata:\<newline>  name: fifth\<newline>  annotations:\<newline>    "helm.sh/hook": post-delete, post-install\<newline>''\<close>

definition sixth_manifest :: string where
  \<open>sixth_manifest = ''invalid manifest''\<close>

definition eighth_document :: string where
  \<open>eighth_document = ''kind: ConfigMap\<newline>apiVersion: v1\<newline>metadata:\<newline>  name: eighth\<newline>data:\<newline>  name: value''\<close>

definition example_test_document :: string where
  \<open>example_test_document = ''apiVersion: v1\<newline>kind: Pod\<newline>metadata:\<newline>  name: example-test\<newline>  annotations:\<newline>    "helm.sh/hook": test-success\<newline>''\<close>

definition eighth_manifest :: string where
  \<open>eighth_manifest = eighth_document @ ''\<newline>---\<newline>'' @ example_test_document\<close>

definition test_manifests :: "(string \<times> string) list" where
  "test_manifests =
     [(''one'', first_manifest), (''two'', second_manifest), (''three'', third_manifest),
      (''four'', fourth_manifest), (''five'', fifth_manifest), (''six/_six'', sixth_manifest),
      (''seven'', []), (''eight'', eighth_manifest)]"

text \<open>
  The manifests that \<^verbatim>\<open>TestSortManifestsHookDeletion\<close> renders from its template: without
  a delete policy, with a delete policy, and with a delete policy and a delete timeout.
\<close>

definition crd_head :: string where
  \<open>crd_head = ''\<newline>apiVersion: apiextensions.k8s.io/v1beta1\<newline>kind: CustomResourceDefinition\<newline>metadata:\<newline>  name: example.com\<newline>  labels:\<newline>    app: example-crd\<newline>  annotations:\<newline>    helm.sh/hook: crd-install''\<close>

definition crd_spec :: string where
  \<open>crd_spec = ''\<newline>spec:\<newline>  group: example.com\<newline>  version: v1alpha1\<newline>  names:\<newline>    kind: example\<newline>    plural: examples\<newline>  scope: Cluster\<newline>''\<close>

definition crd_no_policy :: string where
  "crd_no_policy = crd_head @ crd_spec"

definition crd_policy :: string where
  \<open>crd_policy = crd_head @ ''\<newline>    helm.sh/hook-delete-policy: before-hook-creation'' @ crd_spec\<close>

definition crd_policy_timeout :: string where
  \<open>crd_policy_timeout = crd_head @ ''\<newline>    helm.sh/hook-delete-policy: hook-succeeded'' @ ''\<newline>    helm.sh/hook-delete-timeout: "420"'' @ crd_spec\<close>

text \<open>
  A document like \<open>second\<close> and \<open>third\<close> of \<^verbatim>\<open>TestSortManifests\<close>, whose hook annotation
  names a known event and an unknown one.
\<close>

definition mixed_manifest :: string where
  \<open>mixed_manifest = ''kind: ReplicaSet\<newline>apiVersion: v1beta1\<newline>metadata:\<newline>  name: mixed\<newline>  annotations:\<newline>    "helm.sh/hook": post-install, no-such-hook\<newline>''\<close>

definition crd_simple_head :: "(string \<rightharpoonup> string) \<Rightarrow> SimpleHead" where
  "crd_simple_head annotations =
     \<lparr>Version_head = ''apiextensions.k8s.io/v1beta1'', Kind = ''CustomResourceDefinition'',
      Name_head = ''example.com'', Annotations = annotations\<rparr>"

text \<open>The heads a YAML parser reads from these documents; \<open>invalid manifest\<close> has none.\<close>

definition test_heads :: "(string \<times> SimpleHead) list" where
  "test_heads =
     [(first_manifest, \<lparr>Version_head = ''v1'', Kind = ''Job'', Name_head = ''first'',
         Annotations = [HookAnno \<mapsto> ''pre-install'']\<rparr>),
      (second_manifest, \<lparr>Version_head = ''v1beta1'', Kind = ''ReplicaSet'', Name_head = ''second'',
         Annotations = [HookAnno \<mapsto> ''post-install'']\<rparr>),
      (third_manifest, \<lparr>Version_head = ''v1beta1'', Kind = ''ReplicaSet'', Name_head = ''third'',
         Annotations = [HookAnno \<mapsto> ''no-such-hook'']\<rparr>),
      (fourth_manifest, \<lparr>Version_head = ''v1'', Kind = ''Pod'', Name_head = ''fourth'',
         Annotations = [''nothing'' \<mapsto> ''here'']\<rparr>),
      (fifth_manifest, \<lparr>Version_head = ''v1beta1'', Kind = ''ReplicaSet'', Name_head = ''fifth'',
         Annotations = [HookAnno \<mapsto> ''post-delete, post-install'']\<rparr>),
      (eighth_document, \<lparr>Version_head = ''v1'', Kind = ''ConfigMap'', Name_head = ''eighth'',
         Annotations = Map.empty\<rparr>),
      (example_test_document, \<lparr>Version_head = ''v1'', Kind = ''Pod'', Name_head = ''example-test'',
         Annotations = [HookAnno \<mapsto> ''test-success'']\<rparr>),
      (crd_no_policy, crd_simple_head [HookAnno \<mapsto> ''crd-install'']),
      (crd_policy, crd_simple_head
         [HookAnno \<mapsto> ''crd-install'', HookDeleteAnno \<mapsto> ''before-hook-creation'']),
      (crd_policy_timeout, crd_simple_head
         [HookAnno \<mapsto> ''crd-install'', HookDeleteAnno \<mapsto> ''hook-succeeded'',
          HookDeleteTimeoutAnno \<mapsto> ''420'']),
      (mixed_manifest, \<lparr>Version_head = ''v1beta1'', Kind = ''ReplicaSet'', Name_head = ''mixed'',
         Annotations = [HookAnno \<mapsto> ''post-install, no-such-hook'']\<rparr>)]"

text \<open>
  The event names and the delete policies that occur in the tests and in the
  specification.
\<close>

definition test_events :: "(string \<times> Hook_Event) list" where
  "test_events =
     [(''pre-install'', PRE_INSTALL), (''post-install'', POST_INSTALL),
      (''pre-delete'', PRE_DELETE), (''post-delete'', POST_DELETE),
      (''pre-upgrade'', PRE_UPGRADE), (''post-upgrade'', POST_UPGRADE),
      (''pre-rollback'', PRE_ROLLBACK), (''post-rollback'', POST_ROLLBACK),
      (''test-success'', RELEASE_TEST_SUCCESS), (''test-failure'', RELEASE_TEST_FAILURE),
      (''crd-install'', CRD_INSTALL)]"

definition test_policies :: "(string \<times> Hook_DeletePolicy) list" where
  "test_policies =
     [(''hook-succeeded'', SUCCEEDED), (''hook-failed'', FAILED),
      (''before-hook-creation'', BEFORE_HOOK_CREATION)]"

text \<open>
  An order of the kinds of \<^verbatim>\<open>TestSortManifests\<close> under which its last loop passes:
  the generic manifests come out as \<open>eighth\<close> (ConfigMap), then \<open>fourth\<close> (Pod).
\<close>

definition test_order :: "string list" where
  "test_order = [''ConfigMap'', ''Pod'', ''ReplicaSet'', ''Job'']"

text \<open>
  The surroundings of the sorter in these tests: an empty text has no documents, the
  manifest of the path \<open>eight\<close> splits into its two documents, any other text is one
  document.
\<close>

definition test_lib :: sorter_lib where
  "test_lib =
     \<lparr>SplitManifests =
        (\<lambda>c. if c = [] then [] else if c = eighth_manifest
              then [eighth_document, example_test_document] else [c]),
      Unmarshal = map_of test_heads,
      ParseInt = (\<lambda>v. if v = ''420'' then Some 420 else None),
      events = map_of test_events,
      deletePolices = map_of test_policies,
      defaultHookDeleteTimeoutInSeconds = 60\<rparr>"

chapter \<open>Properties\<close>

section \<open>The namespace of the service\<close>

subsection \<open>Properties of the trimming\<close>

lemma TrimSpace_no_leading_space:
  "TrimSpace s \<noteq> [] \<Longrightarrow> \<not> unicode_IsSpace (hd (TrimSpace s))"
proof -
  let ?t = "dropWhile unicode_IsSpace s"
  assume ne: "TrimSpace s \<noteq> []"
  have tne: "?t \<noteq> []"
  proof
    assume "?t = []"
    then have "TrimSpace s = []"
      by (auto simp: TrimSpace_def dest: set_dropWhileD)
    with ne show False
      by simp
  qed
  then have h: "\<not> unicode_IsSpace (hd ?t)"
    by (rule hd_dropWhile)
  from ne have rne: "dropWhile unicode_IsSpace (rev ?t) \<noteq> []"
    by (simp add: TrimSpace_def)
  obtain us where us: "rev ?t = us @ dropWhile unicode_IsSpace (rev ?t)"
    by (metis takeWhile_dropWhile_id)
  then have "?t = rev (dropWhile unicode_IsSpace (rev ?t)) @ rev us"
    by (metis rev_append rev_rev_ident)
  then have "hd ?t = hd (rev (dropWhile unicode_IsSpace (rev ?t)))"
    using rne by (metis hd_append2 rev_is_Nil_conv)
  with h show ?thesis
    by (simp add: TrimSpace_def)
qed

lemma TrimSpace_no_trailing_space:
  "TrimSpace s \<noteq> [] \<Longrightarrow> \<not> unicode_IsSpace (last (TrimSpace s))"
proof -
  assume ne: "TrimSpace s \<noteq> []"
  let ?u = "dropWhile unicode_IsSpace (rev (dropWhile unicode_IsSpace s))"
  from ne have "?u \<noteq> []"
    by (simp add: TrimSpace_def)
  then have "\<not> unicode_IsSpace (hd ?u)"
    by (rule hd_dropWhile)
  moreover have "last (rev ?u) = hd ?u"
    using \<open>?u \<noteq> []\<close> by (simp add: last_rev)
  ultimately show ?thesis
    by (simp add: TrimSpace_def)
qed

lemma TrimSpace_decomposition:
  "\<exists>pre post. s = pre @ TrimSpace s @ post \<and>
     (\<forall>r \<in> set pre. unicode_IsSpace r) \<and> (\<forall>r \<in> set post. unicode_IsSpace r)"
proof -
  let ?pre = "takeWhile unicode_IsSpace s"
  let ?t = "dropWhile unicode_IsSpace s"
  let ?post = "rev (takeWhile unicode_IsSpace (rev ?t))"
  have "rev ?t = takeWhile unicode_IsSpace (rev ?t) @ dropWhile unicode_IsSpace (rev ?t)"
    by simp
  then have "?t = TrimSpace s @ ?post"
    unfolding TrimSpace_def by (metis rev_append rev_rev_ident)
  then have "s = ?pre @ TrimSpace s @ ?post"
    by (metis takeWhile_dropWhile_id)
  moreover have "\<forall>r \<in> set ?pre. unicode_IsSpace r"
    by (auto dest: set_takeWhileD)
  moreover have "\<forall>r \<in> set ?post. unicode_IsSpace r"
    by (auto dest: set_takeWhileD)
  ultimately show ?thesis
    by blast
qed

text \<open>
  Claim C9. \<^verbatim>\<open>namespace()\<close> resolves the namespace by a fixed precedence: a non-empty
  \<^verbatim>\<open>TILLER_NAMESPACE\<close> is returned; otherwise, when the service-account namespace file
  can be read and its content without surrounding white space is not empty, that trimmed
  content is returned; otherwise the default namespace constant is returned.
\<close>

theorem namespace_precedence:
  "(Getenv w ''TILLER_NAMESPACE'' \<noteq> [] \<longrightarrow>
      namespace dflt w = Getenv w ''TILLER_NAMESPACE'') \<and>
   (Getenv w ''TILLER_NAMESPACE'' = [] \<longrightarrow>
      (\<forall>data. ReadFile w serviceAccountNamespaceFile = Inr data \<longrightarrow> TrimSpace data \<noteq> [] \<longrightarrow>
         namespace dflt w = TrimSpace data) \<and>
      (\<forall>data. ReadFile w serviceAccountNamespaceFile = Inr data \<longrightarrow> TrimSpace data = [] \<longrightarrow>
         namespace dflt w = dflt) \<and>
      (\<forall>err. ReadFile w serviceAccountNamespaceFile = Inl err \<longrightarrow>
         namespace dflt w = dflt))"
  by (simp add: namespace_def Let_def)

theorem namespace_precedence_witness:
  "namespace [100] \<lparr>Getenv = (\<lambda>_. [116, 105]), ReadFile = (\<lambda>_. Inl ''ENOENT'')\<rparr> = [116, 105] \<and>
   namespace [100] \<lparr>Getenv = (\<lambda>_. []), ReadFile = (\<lambda>_. Inr [32, 116, 105, 10])\<rparr> = [116, 105] \<and>
   namespace [100] \<lparr>Getenv = (\<lambda>_. []), ReadFile = (\<lambda>_. Inr [32, 10])\<rparr> = [100] \<and>
   namespace [100] \<lparr>Getenv = (\<lambda>_. []), ReadFile = (\<lambda>_. Inl ''ENOENT'')\<rparr> = [100]"
proof -
  let ?env = "\<lparr>Getenv = (\<lambda>_. [116, 105]), ReadFile = (\<lambda>_. Inl ''ENOENT'')\<rparr>"
  let ?file = "\<lparr>Getenv = (\<lambda>_. []), ReadFile = (\<lambda>_. Inr [32, 116, 105, 10])\<rparr>"
  let ?blank = "\<lparr>Getenv = (\<lambda>_. []), ReadFile = (\<lambda>_. Inr [32, 10])\<rparr>"
  let ?none = "\<lparr>Getenv = (\<lambda>_. []), ReadFile = (\<lambda>_. Inl ''ENOENT'')\<rparr>"
  have t1: "TrimSpace [32, 116, 105, 10] = [116, 105]"
    by (simp add: TrimSpace_def unicode_IsSpace_def)
  have t2: "TrimSpace [32, 10] = []"
    by (simp add: TrimSpace_def unicode_IsSpace_def)
  have "namespace [100] ?env = [116, 105]"
    using namespace_precedence [of ?env "[100]"] by simp
  moreover have "namespace [100] ?file = [116, 105]"
    using namespace_precedence [of ?file "[100]"] t1 by simp
  moreover have "namespace [100] ?blank = [100]"
    using namespace_precedence [of ?blank "[100]"] t2 by simp
  moreover have "namespace [100] ?none = [100]"
    using namespace_precedence [of ?none "[100]"] by simp
  ultimately show ?thesis
    by simp
qed

section \<open>The gateway: a request without its name\<close>

lemma with_name_missing:
  "pathParams ''name'' = None \<Longrightarrow>
     with_name g pathParams k =
       return_error (GrpcError InvalidArgument ''missing parameter name'')"
  by (simp add: with_name_def)

lemma refused_invalid_return_error:
  "refused_invalid (return_error (GrpcError InvalidArgument m))"
  by (simp add: refused_invalid_def return_error_def)

lemma refused_after_Decode:
  "pathParams ''name'' = None \<Longrightarrow>
     refused_invalid
       (case d of
          Inl e \<Rightarrow> return_error (GrpcError InvalidArgument e)
        | Inr req \<Rightarrow> with_name g pathParams (k req))"
  by (cases d) (simp_all add: with_name_missing refused_invalid_return_error)

text \<open>
  Claim C10. For every gateway operation whose route carries a \<open>name\<close> path parameter
  (InstallRelease, UpdateRelease, UninstallRelease, RollbackRelease, GetReleaseStatus,
  GetReleaseContent, GetHistory): when \<open>name\<close> is absent from the parsed path parameters,
  the request function returns an InvalidArgument error and never calls the RPC client.
\<close>

theorem missing_name_refused:
  assumes "pathParams ''name'' = None"
  shows "refused_invalid (request_ReleaseService_InstallRelease_0 g pathParams z) \<and>
         refused_invalid (request_ReleaseService_UpdateRelease_0 g pathParams z) \<and>
         refused_invalid (request_ReleaseService_UninstallRelease_0 g pathParams z) \<and>
         refused_invalid (request_ReleaseService_RollbackRelease_0 g pathParams z) \<and>
         refused_invalid (request_ReleaseService_GetReleaseStatus_0 g pathParams z) \<and>
         refused_invalid (request_ReleaseService_GetReleaseContent_0 g pathParams z) \<and>
         refused_invalid (request_ReleaseService_GetHistory_0 g pathParams z)"
proof -
  have "refused_invalid (request_ReleaseService_InstallRelease_0 g pathParams z)"
    unfolding request_ReleaseService_InstallRelease_0_def
    using assms by (rule refused_after_Decode)
  moreover have "refused_invalid (request_ReleaseService_UpdateRelease_0 g pathParams z)"
    unfolding request_ReleaseService_UpdateRelease_0_def
    using assms by (rule refused_after_Decode)
  moreover have "refused_invalid (request_ReleaseService_UninstallRelease_0 g pathParams z)"
    using assms
    by (simp add: request_ReleaseService_UninstallRelease_0_def with_name_missing
        refused_invalid_return_error)
  moreover have "refused_invalid (request_ReleaseService_RollbackRelease_0 g pathParams z)"
    using assms
    by (simp add: request_ReleaseService_RollbackRelease_0_def with_name_missing
        refused_invalid_return_error)
  moreover have "refused_invalid (request_ReleaseService_GetReleaseStatus_0 g pathParams z)"
    using assms
    by (simp add: request_ReleaseService_GetReleaseStatus_0_def with_name_missing
        refused_invalid_return_error)
  moreover have "refused_invalid (request_ReleaseService_GetReleaseContent_0 g pathParams z)"
    using assms
    by (simp add: request_ReleaseService_GetReleaseContent_0_def with_name_missing
        refused_invalid_return_error)
  moreover have "refused_invalid (request_ReleaseService_GetHistory_0 g pathParams z)"
    using assms
    by (simp add: request_ReleaseService_GetHistory_0_def with_name_missing
        refused_invalid_return_error)
  ultimately show ?thesis
    by simp
qed

theorem missing_name_refused_witness:
  "[''version'' \<mapsto> ''1''] ''name'' = None \<and>
   err (request_ReleaseService_GetReleaseStatus_0 echo_gateway [''version'' \<mapsto> ''1'']
          \<lparr>Name = [], Version = 0\<rparr>)
     = Some (GrpcError InvalidArgument ''missing parameter name'') \<and>
   calls (request_ReleaseService_UninstallRelease_0 echo_gateway [''version'' \<mapsto> ''1'']
          \<lparr>Name = [], Version = 0\<rparr>) = [] \<and>
   refused_invalid (request_ReleaseService_InstallRelease_0 echo_gateway [''version'' \<mapsto> ''1'']
          \<lparr>Name = [], Version = 0\<rparr>) \<and>
   calls (request_ReleaseService_GetReleaseStatus_0 echo_gateway
          [''name'' \<mapsto> ''smug-pigeon'', ''version'' \<mapsto> ''1''] \<lparr>Name = [], Version = 0\<rparr>)
     = [(GetReleaseStatus, \<lparr>Name = ''smug-pigeon'', Version = 1\<rparr>)]"
proof -
  let ?pp = "[''version'' \<mapsto> ''1'']"
  let ?z = "\<lparr>Name = [], Version = 0\<rparr>"
  have absent: "?pp ''name'' = None"
    by simp
  note refused =
    missing_name_refused [where pathParams = ?pp and g = echo_gateway and z = ?z, OF absent]
  have "err (request_ReleaseService_GetReleaseStatus_0 echo_gateway ?pp ?z)
          = Some (GrpcError InvalidArgument ''missing parameter name'')"
    by (simp add: request_ReleaseService_GetReleaseStatus_0_def with_name_def return_error_def)
  moreover have "calls (request_ReleaseService_UninstallRelease_0 echo_gateway ?pp ?z) = []"
    using refused by (simp add: refused_invalid_def)
  moreover have "refused_invalid (request_ReleaseService_InstallRelease_0 echo_gateway ?pp ?z)"
    using refused by simp
  moreover have "calls (request_ReleaseService_GetReleaseStatus_0 echo_gateway
          [''name'' \<mapsto> ''smug-pigeon'', ''version'' \<mapsto> ''1''] ?z)
     = [(GetReleaseStatus, \<lparr>Name = ''smug-pigeon'', Version = 1\<rparr>)]"
    by (simp add: request_ReleaseService_GetReleaseStatus_0_def with_name_def with_version_def
        call_client_def echo_gateway_def)
  ultimately show ?thesis
    using absent by simp
qed

section \<open>The choice of the release store\<close>

lemma supported_stores_distinct:
  "distinct [storageMemory, storageConfigMap, storageInlineTPR, storageObjectStoreTPR]"
  by (simp add: storageMemory_def storageConfigMap_def storageInlineTPR_def
      storageObjectStoreTPR_def)

lemma reports_failure_ensureResource:
  "ensureResource w = Some x \<Longrightarrow> reports_failure x"
  by (auto simp: ensureResource_def split: if_splits option.splits)

lemma provider_config_unknown:
  "storageProvider f \<notin> {s3_Kind kinds, gcs_Kind kinds, azure_Kind kinds, swift_Kind kinds} \<Longrightarrow>
     provider_config kinds f w = Inl (Exit 1 (''Unknown provider: '' @ storageProvider f @ newline))"
  by (simp add: provider_config_def)

text \<open>
  With the object store backend chosen, a provider outside the four supported ones ends
  \<^verbatim>\<open>start\<close> with exit status 1 in every surrounding: the provider switch has a default
  branch.
\<close>

lemma start_unknown_provider_exits:
  assumes "store f = storageObjectStoreTPR"
    and "storageProvider f \<notin> {s3_Kind kinds, gcs_Kind kinds, azure_Kind kinds, swift_Kind kinds}"
  shows "reports_failure (start kinds f w)"
proof -
  have other: "store f \<noteq> storageMemory" "store f \<noteq> storageConfigMap"
    "store f \<noteq> storageInlineTPR"
    using assms(1)
    by (simp_all add: storageMemory_def storageConfigMap_def storageInlineTPR_def
        storageObjectStoreTPR_def)
  have "reports_failure (object_store_case kinds f w)"
    by (auto simp: object_store_case_def provider_config_unknown [OF assms(2)]
        dest: reports_failure_ensureResource split: option.splits)
  then show ?thesis
    using assms(1) other by (simp add: start_def split: option.splits)
qed

lemma start_unknown_provider_message:
  assumes "ClientConfig_error w = None" and "ClientSet_error w = None"
    and "ensureResource w = None"
    and "store f = storageObjectStoreTPR"
    and "storageProvider f \<notin> {s3_Kind kinds, gcs_Kind kinds, azure_Kind kinds, swift_Kind kinds}"
  shows "start kinds f w = Exit 1 (''Unknown provider: '' @ storageProvider f @ newline)"
proof -
  have other: "store f \<noteq> storageMemory" "store f \<noteq> storageConfigMap"
    "store f \<noteq> storageInlineTPR"
    using assms(4)
    by (simp_all add: storageMemory_def storageConfigMap_def storageInlineTPR_def
        storageObjectStoreTPR_def)
  show ?thesis
    using assms(1-4) other
    by (simp add: start_def object_store_case_def provider_config_unknown [OF assms(5)])
qed

text \<open>
  Claim C8 says that every storage backend string outside the supported set (memory,
  configmap, inline-tpr, object-store-tpr) makes start-up report a configuration failure
  instead of going on with a store nobody configured. The outer switch of \<^verbatim>\<open>start\<close> has
  no default branch: once the Kubernetes client is set up, such a string matches no case,
  nothing is reported, and \<^verbatim>\<open>start\<close> goes on with the store the environment was created
  with.
\<close>

theorem start_unknown_store_continues:
  assumes "store f \<notin> {storageMemory, storageConfigMap, storageInlineTPR, storageObjectStoreTPR}"
    and "ClientConfig_error w = None" and "ClientSet_error w = None"
  shows "start kinds f w = Continue EnvironmentDefault \<and> \<not> reports_failure (start kinds f w)"
  using assms by (simp add: start_def)

theorem start_unknown_store_continues_witness:
  "start stow_kinds (default_flags\<lparr>store := ''etcd''\<rparr>) healthy_cluster
     = Continue EnvironmentDefault \<and>
   \<not> reports_failure (start stow_kinds (default_flags\<lparr>store := ''etcd''\<rparr>) healthy_cluster)"
proof -
  have "store (default_flags\<lparr>store := ''etcd''\<rparr>)
          \<notin> {storageMemory, storageConfigMap, storageInlineTPR, storageObjectStoreTPR}"
    by (simp add: storageMemory_def storageConfigMap_def storageInlineTPR_def
        storageObjectStoreTPR_def)
  moreover have "ClientConfig_error healthy_cluster = None"
    and "ClientSet_error healthy_cluster = None"
    by (simp_all add: healthy_cluster_def)
  ultimately show ?thesis
    by (rule start_unknown_store_continues)
qed

lemma start_unknown_provider_example:
  "start stow_kinds (default_flags\<lparr>store := ''object-store-tpr'', storageProvider := ''ftp''\<rparr>)
     healthy_cluster = Exit 1 (''Unknown provider: ftp'' @ newline)"
proof -
  let ?f = "default_flags\<lparr>store := ''object-store-tpr'', storageProvider := ''ftp''\<rparr>"
  have "storageProvider ?f \<notin> {s3_Kind stow_kinds, gcs_Kind stow_kinds, azure_Kind stow_kinds,
          swift_Kind stow_kinds}"
    by (simp add: stow_kinds_def)
  moreover have "store ?f = storageObjectStoreTPR"
    by (simp add: storageObjectStoreTPR_def)
  moreover have "ensureResource healthy_cluster = None"
    by (simp add: ensureResource_def healthy_cluster_def)
  moreover have "ClientConfig_error healthy_cluster = None"
    and "ClientSet_error healthy_cluster = None"
    by (simp_all add: healthy_cluster_def)
  ultimately show ?thesis
    using start_unknown_provider_message [of healthy_cluster ?f stow_kinds] by simp
qed

section \<open>The manifest sorter\<close>

subsection \<open>Tokens and events\<close>

lemma split_on_nonempty: "split_on c s \<noteq> []"
  by (induction s) (auto split: list.splits)

lemma tokens_nonempty: "tokens v \<noteq> []"
  by (simp add: tokens_def split_on_nonempty)

lemma map_filter_Nil_iff: "List.map_filter f xs = [] \<longleftrightarrow> list_all (\<lambda>x. f x = None) xs"
  by (induction xs) (auto simp: List.map_filter_simps split: option.splits)

lemma hook_events_Nil_iff:
  "hook_events lib v = [] \<longleftrightarrow> list_all (\<lambda>t. events lib t = None) (tokens v)"
  by (simp add: hook_events_def map_filter_Nil_iff)

lemma all_known_not_all_unknown:
  "list_all (\<lambda>t. events lib t \<noteq> None) (tokens v) \<Longrightarrow> \<not> list_all (\<lambda>t. events lib t = None) (tokens v)"
  using tokens_nonempty [of v] by (cases "tokens v") auto

lemma goes_to_hooks_simps:
  "classify lib d = Plain \<Longrightarrow> \<not> goes_to_hooks lib d"
  "classify lib d = UnknownHook \<Longrightarrow> \<not> goes_to_hooks lib d"
  "classify lib d = KnownHook \<Longrightarrow> goes_to_hooks lib d"
  "classify lib d = MixedHook \<Longrightarrow> goes_to_hooks lib d"
  by (simp_all add: goes_to_hooks_def)

subsection \<open>Where the documents go\<close>

lemma new_hook_Manifest: "new_hook lib path d h es = Inr hook \<Longrightarrow> Manifest_hook hook = d"
  by (auto simp: new_hook_def split: sum.splits)

lemma sortDocuments_lists:
  "sortDocuments lib path ds (hs, gs) = Inr (hs', gs') \<Longrightarrow>
     map Manifest_hook hs' = map Manifest_hook hs @ filter (goes_to_hooks lib) ds \<and>
     map Content gs' = map Content gs @ filter (\<lambda>d. classify lib d = Plain) ds"
proof (induction ds arbitrary: hs gs)
  case Nil
  then show ?case by simp
next
  case (Cons d ds)
  show ?case
  proof (cases "classify lib d")
    case Blank
    then have w: "whitespace_only d"
      by (auto simp: classify_def split: if_splits option.splits)
    with Cons.prems have "sortDocuments lib path ds (hs, gs) = Inr (hs', gs')" by simp
    from Cons.IH [OF this] Blank show ?thesis by (simp add: goes_to_hooks_def)
  next
    case Unparseable
    then have w: "\<not> whitespace_only d" "Unmarshal lib d = None"
      by (auto simp: classify_def split: if_splits option.splits)
    with Cons.prems have "sortDocuments lib path ds (hs, gs) = Inr (hs', gs')" by simp
    from Cons.IH [OF this] Unparseable show ?thesis by (simp add: goes_to_hooks_def)
  next
    case Plain
    then obtain h where w: "\<not> whitespace_only d" "Unmarshal lib d = Some h" "Annotations h HookAnno = None"
      by (auto simp: classify_def split: if_splits option.splits)
    with Cons.prems have "sortDocuments lib path ds (hs, gs @ [\<lparr>Name_manifest = Name_head h, Content = d, Head = h\<rparr>]) = Inr (hs', gs')" by simp
    from Cons.IH [OF this] Plain show ?thesis by (simp add: goes_to_hooks_def)
  next
    case KnownHook
    then obtain h v where w0: "\<not> whitespace_only d" "Unmarshal lib d = Some h" "Annotations h HookAnno = Some v"
       and known: "list_all (\<lambda>t. events lib t \<noteq> None) (tokens v)"
      unfolding classify_def by (simp split: if_splits option.splits)
    from all_known_not_all_unknown [OF known] have "hook_events lib v \<noteq> []"
      by (simp add: hook_events_Nil_iff)
    note w = w0 this
    with Cons.prems obtain hook where hk: "new_hook lib path d h (hook_events lib v) = Inr hook"
       "sortDocuments lib path ds (hs @ [hook], gs) = Inr (hs', gs')"
      by (auto split: sum.splits)
    from Cons.IH [OF hk(2)] KnownHook new_hook_Manifest [OF hk(1)] show ?thesis by (simp add: goes_to_hooks_def)
  next
    case UnknownHook
    then obtain h v where w: "\<not> whitespace_only d" "Unmarshal lib d = Some h" "Annotations h HookAnno = Some v"
       "hook_events lib v = []"
      by (auto simp: classify_def hook_events_Nil_iff split: if_splits option.splits)
    with Cons.prems have "sortDocuments lib path ds (hs, gs) = Inr (hs', gs')" by simp
    from Cons.IH [OF this] UnknownHook show ?thesis by (simp add: goes_to_hooks_def)
  next
    case MixedHook
    then obtain h v where w: "\<not> whitespace_only d" "Unmarshal lib d = Some h" "Annotations h HookAnno = Some v"
       "hook_events lib v \<noteq> []"
      by (auto simp: classify_def hook_events_Nil_iff split: if_splits option.splits)
    with Cons.prems obtain hook where hk: "new_hook lib path d h (hook_events lib v) = Inr hook"
       "sortDocuments lib path ds (hs @ [hook], gs) = Inr (hs', gs')"
      by (auto split: sum.splits)
    from Cons.IH [OF hk(2)] MixedHook new_hook_Manifest [OF hk(1)] show ?thesis by (simp add: goes_to_hooks_def)
  qed
qed

lemma sortFiles_lists:
  "sortFiles lib files (hs, gs) = Inr (hs', gs') \<Longrightarrow>
     map Manifest_hook hs' = map Manifest_hook hs @ filter (goes_to_hooks lib) (documents lib files) \<and>
     map Content gs' = map Content gs @ filter (\<lambda>d. classify lib d = Plain) (documents lib files)"
proof (induction files arbitrary: hs gs)
  case Nil
  then show ?case by (simp add: documents_def)
next
  case (Cons f files)
  obtain path c where f: "f = (path, c)" by (cases f)
  show ?case
  proof (cases "is_partial path")
    case True
    with Cons.prems f have "sortFiles lib files (hs, gs) = Inr (hs', gs')" by simp
    from Cons.IH [OF this] True f show ?thesis by (simp add: documents_def)
  next
    case False
    with Cons.prems f obtain hs1 gs1 where
      a: "sortDocuments lib path (SplitManifests lib c) (hs, gs) = Inr (hs1, gs1)"
      and b: "sortFiles lib files (hs1, gs1) = Inr (hs', gs')"
      by (auto split: sum.splits)
    from sortDocuments_lists [OF a] Cons.IH [OF b] False f show ?thesis
      by (simp add: documents_def)
  qed
qed

lemma sortManifests_msets:
  assumes "sortManifests lib files table = Inr (hs, gs)"
  shows "mset (map Manifest_hook hs) = mset (filter (goes_to_hooks lib) (documents lib files))"
    and "mset (map Content gs) = mset (filter (\<lambda>d. classify lib d = Plain) (documents lib files))"
proof -
  from assms obtain hs0 gs0 where r: "sortFiles lib files ([], []) = Inr (hs0, gs0)"
    and hs: "hs = sortHooks hs0 table" and gs: "gs = sortByKind gs0 table"
    by (auto simp: sortManifests_def split: sum.splits)
  from sortFiles_lists [OF r]
  have l: "map Manifest_hook hs0 = filter (goes_to_hooks lib) (documents lib files)"
    "map Content gs0 = filter (\<lambda>d. classify lib d = Plain) (documents lib files)"
    by simp_all
  have "mset (map Manifest_hook hs) = mset (map Manifest_hook hs0)"
    by (simp add: hs sortHooks_def)
  with l show "mset (map Manifest_hook hs) = mset (filter (goes_to_hooks lib) (documents lib files))"
    by simp
  have "mset (map Content gs) = mset (map Content gs0)"
    by (simp add: gs sortByKind_def)
  with l show "mset (map Content gs) = mset (filter (\<lambda>d. classify lib d = Plain) (documents lib files))"
    by simp
qed

lemma count_list_filter_if:
  "count_list (filter P xs) d = (if P d then count_list xs d else 0)"
  by (induction xs) auto

subsection \<open>The sorter on the manifests of its tests\<close>

text \<open>
  On the input of \<^verbatim>\<open>TestSortManifests\<close> the sorter returns no error, 2 generic
  manifests and 4 hooks, as the test asserts, with the events the test expects. Seven
  documents survive the skipping of the partial \<open>six/_six\<close> and of the empty \<open>seven\<close>.
\<close>

lemma TestSortManifests_counts:
  "\<not> isl (sortManifests test_lib test_manifests test_order) \<and>
   length (snd (projr (sortManifests test_lib test_manifests test_order))) = 2 \<and>
   length (fst (projr (sortManifests test_lib test_manifests test_order))) = 4"
  by code_simp

lemma TestSortManifests_events:
  "map (\<lambda>h. (Name_hook h, Events h)) (fst (projr (sortFiles test_lib test_manifests ([], []))))
     = [(''first'', [PRE_INSTALL]), (''second'', [POST_INSTALL]),
        (''fifth'', [POST_DELETE, POST_INSTALL]), (''example-test'', [RELEASE_TEST_SUCCESS])]"
  by code_simp

lemma TestSortManifests_sorted:
  "map Content (snd (projr (sortManifests test_lib test_manifests test_order)))
     = [eighth_document, fourth_manifest]"
  by code_simp

lemma TestSortManifests_documents:
  "documents test_lib test_manifests =
     [first_manifest, second_manifest, third_manifest, fourth_manifest, fifth_manifest,
      eighth_document, example_test_document]"
  by code_simp

lemma TestSortManifests_passes:
  "TestSortManifests_asserts (sortManifests test_lib test_manifests test_order)"
  by code_simp

text \<open>
  No result passes these assertions and also has each of the seven surviving documents
  in exactly one of its two sequences: the test has room for six.
\<close>

lemma TestSortManifests_distinct: "distinct (documents test_lib test_manifests)"
  by code_simp

lemma TestSortManifests_excludes_exactly_one:
  "\<not> (in_exactly_one (documents test_lib test_manifests) hs generic \<and>
      TestSortManifests_asserts (Inr (hs, generic)))"
proof
  let ?docs = "documents test_lib test_manifests"
  assume a: "in_exactly_one ?docs hs generic \<and> TestSortManifests_asserts (Inr (hs, generic))"
  then have len: "length generic = 2" "length hs = 4"
    by (simp_all add: TestSortManifests_asserts_def)
  from a have "set ?docs \<subseteq> set (map Manifest_hook hs) \<union> set (map Content generic)"
    by (auto simp: in_exactly_one_def list_all_iff)
  then have "card (set ?docs) \<le> card (set (map Manifest_hook hs) \<union> set (map Content generic))"
    by (intro card_mono) simp_all
  also have "\<dots> \<le> card (set (map Manifest_hook hs)) + card (set (map Content generic))"
    by (rule card_Un_le)
  also have "\<dots> \<le> length (map Manifest_hook hs) + length (map Content generic)"
    by (intro add_mono card_length)
  also have "\<dots> = 6"
    using len by simp
  finally have "card (set ?docs) \<le> 6" .
  moreover have "card (set ?docs) = length ?docs"
    using TestSortManifests_distinct by (rule distinct_card)
  moreover have "length ?docs = 7"
    by (simp only: TestSortManifests_documents) simp
  ultimately show False
    by simp
qed

subsection \<open>Hooks and generic resources\<close>

text \<open>
  Claim C1, as amended. Whenever \<^verbatim>\<open>sortManifests\<close> returns without error, every
  surviving document (not skipped for an underscore-prefixed path or emptiness) whose
  head parses is in exactly one of the two output sequences, as often as it occurs in the
  input, with one exception. A document without the hook annotation is among the generic
  manifests and not among the hooks; a document whose hook annotation names at least one
  known event, alone or beside unknown tokens, is among the hooks and not among the
  generic manifests. The exception is a document whose hook annotation names no known
  event: it is in neither sequence, so it is skipped, not classified as a generic
  resource, and not executed as a hook.
\<close>

theorem sortManifests_partition:
  assumes "sortManifests lib files table = Inr (hs, gs)"
  shows "(classify lib d = Plain \<longrightarrow>
            count_list (map Content gs) d = count_list (documents lib files) d \<and>
            d \<notin> set (map Manifest_hook hs)) \<and>
         (classify lib d = KnownHook \<longrightarrow>
            count_list (map Manifest_hook hs) d = count_list (documents lib files) d \<and>
            d \<notin> set (map Content gs)) \<and>
         (classify lib d = MixedHook \<longrightarrow>
            count_list (map Manifest_hook hs) d = count_list (documents lib files) d \<and>
            d \<notin> set (map Content gs)) \<and>
         (classify lib d = UnknownHook \<longrightarrow>
            d \<notin> set (map Manifest_hook hs) \<and> d \<notin> set (map Content gs)) \<and>
         (d \<in> set (documents lib files) \<and>
          (classify lib d = Plain \<or> classify lib d = KnownHook \<or> classify lib d = MixedHook) \<longrightarrow>
            (d \<in> set (map Manifest_hook hs)) \<noteq> (d \<in> set (map Content gs))) \<and>
         \<not> (d \<in> set (map Manifest_hook hs) \<and> d \<in> set (map Content gs))"
proof -
  note m = sortManifests_msets [OF assms]
  have hooks: "count_list (map Manifest_hook hs) d =
      (if goes_to_hooks lib d then count_list (documents lib files) d else 0)"
  proof -
    have "count (mset (map Manifest_hook hs)) d
        = count (mset (filter (goes_to_hooks lib) (documents lib files))) d"
      by (simp only: m)
    then show ?thesis
      by (simp only: count_mset) (simp add: count_list_filter_if)
  qed
  have generic: "count_list (map Content gs) d =
      (if classify lib d = Plain then count_list (documents lib files) d else 0)"
  proof -
    have "count (mset (map Content gs)) d
        = count (mset (filter (\<lambda>d. classify lib d = Plain) (documents lib files))) d"
      by (simp only: m)
    then show ?thesis
      by (simp only: count_mset) (simp add: count_list_filter_if)
  qed
  have no_hook: "d \<notin> set (map Manifest_hook hs)" if "\<not> goes_to_hooks lib d"
    using that hooks by (metis count_list_0_iff)
  have no_generic: "d \<notin> set (map Content gs)" if "classify lib d \<noteq> Plain"
    using that generic by (metis count_list_0_iff)
  have "classify lib d = Plain \<longrightarrow>
          count_list (map Content gs) d = count_list (documents lib files) d \<and>
          d \<notin> set (map Manifest_hook hs)"
    using generic no_hook [OF goes_to_hooks_simps(1)] by simp
  moreover have "classify lib d = KnownHook \<longrightarrow>
          count_list (map Manifest_hook hs) d = count_list (documents lib files) d \<and>
          d \<notin> set (map Content gs)"
    using hooks no_generic goes_to_hooks_simps(3) [of lib d] by simp
  moreover have "classify lib d = MixedHook \<longrightarrow>
          count_list (map Manifest_hook hs) d = count_list (documents lib files) d \<and>
          d \<notin> set (map Content gs)"
    using hooks no_generic goes_to_hooks_simps(4) [of lib d] by simp
  moreover have "classify lib d = UnknownHook \<longrightarrow>
          d \<notin> set (map Manifest_hook hs) \<and> d \<notin> set (map Content gs)"
    using no_hook [OF goes_to_hooks_simps(2)] no_generic by simp
  moreover have "d \<in> set (documents lib files) \<and>
          (classify lib d = Plain \<or> classify lib d = KnownHook \<or> classify lib d = MixedHook) \<longrightarrow>
            (d \<in> set (map Manifest_hook hs)) \<noteq> (d \<in> set (map Content gs))"
  proof
    assume a: "d \<in> set (documents lib files) \<and>
      (classify lib d = Plain \<or> classify lib d = KnownHook \<or> classify lib d = MixedHook)"
    then have occurs: "count_list (documents lib files) d \<noteq> 0"
      by (simp add: count_list_0_iff)
    show "(d \<in> set (map Manifest_hook hs)) \<noteq> (d \<in> set (map Content gs))"
    proof (cases "classify lib d = Plain")
      case True
      with generic occurs have "count_list (map Content gs) d \<noteq> 0"
        by simp
      then have "d \<in> set (map Content gs)"
        by (metis count_list_0_iff)
      moreover have "d \<notin> set (map Manifest_hook hs)"
        using no_hook [OF goes_to_hooks_simps(1) [OF True]] .
      ultimately show ?thesis
        by blast
    next
      case False
      with a have "goes_to_hooks lib d"
        by (auto simp: goes_to_hooks_def)
      with hooks occurs have "count_list (map Manifest_hook hs) d \<noteq> 0"
        by simp
      then have "d \<in> set (map Manifest_hook hs)"
        by (metis count_list_0_iff)
      moreover have "d \<notin> set (map Content gs)"
        using no_generic [OF False] .
      ultimately show ?thesis
        by blast
    qed
  qed
  moreover have "\<not> (d \<in> set (map Manifest_hook hs) \<and> d \<in> set (map Content gs))"
    using no_hook [OF goes_to_hooks_simps(1)] no_generic by blast
  ultimately show ?thesis
    by blast
qed

theorem sortManifests_partition_witness:
  "count_list (map Content (snd (projr (sortManifests test_lib test_manifests test_order))))
     fourth_manifest = 1 \<and>
   fourth_manifest \<notin> set (map Manifest_hook
     (fst (projr (sortManifests test_lib test_manifests test_order)))) \<and>
   count_list (map Manifest_hook (fst (projr (sortManifests test_lib test_manifests test_order))))
     first_manifest = 1 \<and>
   first_manifest \<notin> set (map Content
     (snd (projr (sortManifests test_lib test_manifests test_order)))) \<and>
   third_manifest \<notin> set (map Content
     (snd (projr (sortManifests test_lib test_manifests test_order)))) \<and>
   count_list (map Manifest_hook
     (fst (projr (sortManifests test_lib [(''mixed'', mixed_manifest)] test_order))))
     mixed_manifest = 1 \<and>
   mixed_manifest \<notin> set (map Content
     (snd (projr (sortManifests test_lib [(''mixed'', mixed_manifest)] test_order))))"
proof -
  let ?R = "sortManifests test_lib test_manifests test_order"
  let ?M = "sortManifests test_lib [(''mixed'', mixed_manifest)] test_order"
  have "\<not> isl ?M"
    by code_simp
  then have M: "?M = Inr (fst (projr ?M), snd (projr ?M))"
    by (cases ?M) auto
  have mixed: "classify test_lib mixed_manifest = MixedHook"
    by code_simp
  have nm: "count_list (documents test_lib [(''mixed'', mixed_manifest)]) mixed_manifest = 1"
    by code_simp
  have "\<not> isl ?R"
    by code_simp
  then have R: "?R = Inr (fst (projr ?R), snd (projr ?R))"
    by (cases ?R) auto
  have plain: "classify test_lib fourth_manifest = Plain"
    by code_simp
  have known: "classify test_lib first_manifest = KnownHook"
    by code_simp
  have unknown: "classify test_lib third_manifest = UnknownHook"
    by code_simp
  have n4: "count_list (documents test_lib test_manifests) fourth_manifest = 1"
    by code_simp
  have n1: "count_list (documents test_lib test_manifests) first_manifest = 1"
    by code_simp
  from sortManifests_partition [OF R, of fourth_manifest] plain n4
  have "count_list (map Content (snd (projr ?R))) fourth_manifest = 1 \<and>
        fourth_manifest \<notin> set (map Manifest_hook (fst (projr ?R)))"
    by simp
  moreover from sortManifests_partition [OF R, of first_manifest] known n1
  have "count_list (map Manifest_hook (fst (projr ?R))) first_manifest = 1 \<and>
        first_manifest \<notin> set (map Content (snd (projr ?R)))"
    by simp
  moreover from sortManifests_partition [OF R, of third_manifest] unknown
  have "third_manifest \<notin> set (map Content (snd (projr ?R)))"
    by simp
  moreover from sortManifests_partition [OF M, of mixed_manifest] mixed nm
  have "count_list (map Manifest_hook (fst (projr ?M))) mixed_manifest = 1 \<and>
        mixed_manifest \<notin> set (map Content (snd (projr ?M)))"
    by simp
  ultimately show ?thesis
    by blast
qed

text \<open>
  The claim as first stated fails on the input of \<^verbatim>\<open>TestSortManifests\<close>: the document
  \<open>third\<close>, whose hook annotation is \<open>no-such-hook\<close>, is neither skipped for its path
  nor empty, and it is in neither output sequence.
\<close>

theorem unknown_hook_in_neither:
  "\<not> is_partial ''three'' \<and> \<not> whitespace_only third_manifest \<and>
   third_manifest \<in> set (documents test_lib test_manifests) \<and>
   \<not> isl (sortManifests test_lib test_manifests test_order) \<and>
   third_manifest \<notin> set (map Manifest_hook
      (fst (projr (sortManifests test_lib test_manifests test_order)))) \<and>
   third_manifest \<notin> set (map Content
      (snd (projr (sortManifests test_lib test_manifests test_order))))"
  by code_simp

subsection \<open>The delete timeout of a hook\<close>








end
